theory Spec2Isabelle
  imports Main
begin

section \<open>Data: status responses, exceptions and observable events\<close>

text \<open>
  The two notebooks drive an asynchronous job of a remote service to completion. A job is
  named by its invocation ARN, a string. Every status query answers with a dictionary;
  the notebooks read three of its keys: \<^verbatim>\<open>status\<close>, \<^verbatim>\<open>outputConfiguration\<close> (itself a dictionary
  with the key \<^verbatim>\<open>s3Uri\<close>) and \<^verbatim>\<open>error_message\<close>. A key that is absent is \<open>None\<close> here.
\<close>

type_synonym job_handle = string

record output_configuration =
  s3Uri :: "string option"

record response =
  status :: "string option"
  outputConfiguration :: "output_configuration option"
  error_message :: "string option"

text \<open>
  Exceptions of the Python run. \<open>TransportError\<close> stands for whatever the client call
  \<^verbatim>\<open>get_data_automation_status\<close> raises (its text is carried along); the others are
  Python's own.
\<close>

datatype py_exception =
    TransportError string
  | AttributeError
  | KeyError
  | NameError
  | ConfigurationError

text \<open>One answer of the service to a status query: the call raises, or returns a response.\<close>

type_synonym answer = "py_exception + response"

text \<open>
  What lab 1's cells do to the outside world, in order: the status query with the handle
  it is given, the clearing of the cell output, the status line printed (its clock time
  is left out), the sleep with its duration in seconds, the line that prints the output
  configuration, and the call of \<^verbatim>\<open>utils.read_json_on_s3\<close> with its argument.
\<close>

datatype event =
    GetStatus job_handle
  | ClearOutput
  | PrintStatus "string option"
  | Sleep int
  | PrintOutputConfig "string option"
  | ReadJsonOnS3 "string option"

text \<open>
  How a poll stands after the answers it was given: the \<^verbatim>\<open>while\<close> condition became false
  (with the values of \<^verbatim>\<open>status\<close> and \<^verbatim>\<open>status_response\<close>), an exception left the loop, or
  the loop has issued its next query and no further answer is given: it is still
  polling.
\<close>

datatype poll_outcome =
    Exited "string option" "response option"
  | Raised py_exception
  | AwaitingAnswer

section \<open>Lab 1: the status polling loop\<close>

text \<open>
  \<^verbatim>\<open>
  status, status_response = None, None
  while status not in ["Success","ServiceError","ClientError"]:
      status_response = bda_runtime_client.get_data_automation_status(
          invocationArn=invocation_arn
      )
      status = status_response.get("status")
      clear_output(wait=True)
      print(f"{datetime.now().strftime('%H:%M:%S')} : BDA video task: {status}")
      time.sleep(5)
  \<close>
  The loop has no bound of its own, so the model runs it against the list of answers the
  service gives to the successive queries: the recursion is on that list, and a run that
  uses the list up while the condition still holds ends in \<open>AwaitingAnswer\<close>, its
  next query issued.
\<close>

definition terminal_statuses :: "string option list" where
  "terminal_statuses = [Some ''Success'', Some ''ServiceError'', Some ''ClientError'']"

fun status_loop ::
  "job_handle \<Rightarrow> string option \<Rightarrow> response option \<Rightarrow> event list \<Rightarrow> answer list
     \<Rightarrow> poll_outcome \<times> event list" where
  "status_loop invocation_arn st status_response tr answers =
     (if st \<in> set terminal_statuses then (Exited st status_response, tr)
      else (case answers of
              [] \<Rightarrow> (AwaitingAnswer, tr @ [GetStatus invocation_arn])
            | Inl e # rest \<Rightarrow> (Raised e, tr @ [GetStatus invocation_arn])
            | Inr r # rest \<Rightarrow>
                status_loop invocation_arn (status r) (Some r)
                  (tr @ [GetStatus invocation_arn, ClearOutput, PrintStatus (status r), Sleep 5])
                  rest))"

declare status_loop.simps [simp del]

text \<open>The loop from its initial state: both variables \<open>None\<close>, nothing done yet.\<close>

definition poll :: "job_handle \<Rightarrow> answer list \<Rightarrow> poll_outcome \<times> event list" where
  "poll invocation_arn answers = status_loop invocation_arn None None [] answers"

text \<open>The events of one full pass through the loop body, for the response \<open>r\<close>.\<close>

definition iteration :: "job_handle \<Rightarrow> response \<Rightarrow> event list" where
  "iteration invocation_arn r =
     [GetStatus invocation_arn, ClearOutput, PrintStatus (status r), Sleep 5]"

text \<open>Readers of a trace: the handles queried and the sleeps taken, in order.\<close>

fun queried_handles :: "event list \<Rightarrow> job_handle list" where
  "queried_handles [] = []"
| "queried_handles (GetStatus h # es) = h # queried_handles es"
| "queried_handles (e # es) = queried_handles es"

fun sleeps :: "event list \<Rightarrow> int list" where
  "sleeps [] = []"
| "sleeps (Sleep d # es) = d # sleeps es"
| "sleeps (e # es) = sleeps es"

subsection \<open>Lab 1: reading the result after the loop\<close>

text \<open>
  \<^verbatim>\<open>
  output_config = status_response.get("outputConfiguration",{}).get("s3Uri")
  print("Ouput configureation file:", output_config)
  config_data = utils.read_json_on_s3(output_config,s3_client)
  \<close>
  Both \<^verbatim>\<open>.get\<close> calls default: a response without \<^verbatim>\<open>outputConfiguration\<close>, or one whose
  output configuration has no \<^verbatim>\<open>s3Uri\<close>, gives \<open>None\<close>.
\<close>

definition get_output_config :: "response \<Rightarrow> string option" where
  "get_output_config status_response =
     (case outputConfiguration status_response of
        None \<Rightarrow> None
      | Some oc \<Rightarrow> s3Uri oc)"

text \<open>
  The cells after the loop run only when the loop's cell ended without an exception.
  \<^verbatim>\<open>utils.read_json_on_s3\<close> is a call out of the notebook: the model records the call and
  its argument and ends there.
\<close>

fun access_result :: "poll_outcome \<Rightarrow> event list \<Rightarrow> poll_outcome \<times> event list" where
  "access_result (Exited st (Some r)) tr =
     (Exited st (Some r),
      tr @ [PrintOutputConfig (get_output_config r), ReadJsonOnS3 (get_output_config r)])"
| "access_result (Exited st None) tr = (Raised AttributeError, tr)"
| "access_result (Raised e) tr = (Raised e, tr)"
| "access_result AwaitingAnswer tr = (AwaitingAnswer, tr)"

definition lab_01 :: "job_handle \<Rightarrow> answer list \<Rightarrow> poll_outcome \<times> event list" where
  "lab_01 invocation_arn answers =
     (case poll invocation_arn answers of (out, tr) \<Rightarrow> access_result out tr)"

section \<open>Lab 2: what follows the wait\<close>

text \<open>
  \<^verbatim>\<open>
  if status_response['status'] == 'Success':
      output_config_uri = status_response.get("outputConfiguration", {}).get("s3Uri")
      print(f"\nVideo processing completed successfully!")
      print(f"Output configuration: {output_config_uri}")
  else:
      print(f"\nVideo processing failed with status: {status_response['status']}")
      if 'error_message' in status_response:
          print(f"Error message: {status_response['error_message']}")
  \<close>
  and, in the next cell,
  \<^verbatim>\<open>
  config_data = bda_utils.read_json_from_s3(output_config_uri)
  \<close>
  \<^verbatim>\<open>status_response\<close> is whatever \<^verbatim>\<open>bda_utils.wait_for_completion\<close> returned: a parameter
  here. The variable \<^verbatim>\<open>output_config_uri\<close> has no other assignment in the notebook, so it
  is \<open>Unassigned\<close> before these cells.
\<close>

datatype 'a variable = Unassigned | Assigned 'a

datatype lab2_event =
    PrintCompleted
  | PrintOutputConfiguration "string option"
  | PrintFailed string
  | PrintErrorMessage string
  | ReadJsonFromS3 "string option"

definition check_status ::
  "response \<Rightarrow> py_exception + (string option variable \<times> lab2_event list)" where
  "check_status status_response =
     (case status status_response of
        None \<Rightarrow> Inl KeyError
      | Some s \<Rightarrow>
          if s = ''Success''
          then Inr (Assigned (get_output_config status_response),
                    [PrintCompleted, PrintOutputConfiguration (get_output_config status_response)])
          else Inr (Unassigned,
                    PrintFailed s #
                      (case error_message status_response of
                         None \<Rightarrow> []
                       | Some m \<Rightarrow> [PrintErrorMessage m])))"

definition retrieve_results ::
  "string option variable \<Rightarrow> lab2_event list \<Rightarrow> py_exception option \<times> lab2_event list" where
  "retrieve_results output_config_uri tr =
     (case output_config_uri of
        Unassigned \<Rightarrow> (Some NameError, tr)
      | Assigned uri \<Rightarrow> (None, tr @ [ReadJsonFromS3 uri]))"

text \<open>Both cells in order; the result is the exception that stopped them, if any.\<close>

definition lab_02 :: "response \<Rightarrow> py_exception option \<times> lab2_event list" where
  "lab_02 status_response =
     (case check_status status_response of
        Inl e \<Rightarrow> (Some e, [])
      | Inr (output_config_uri, tr) \<Rightarrow> retrieve_results output_config_uri tr)"

section \<open>The bounded poller of lab 2\<close>

text \<open>
  Modelled from the spec: \<^verbatim>\<open>wait_for_completion\<close> of \<^verbatim>\<open>bda_object_detection_utils\<close>, which
  lab 2 calls with \<^verbatim>\<open>max_iterations=40\<close> and \<^verbatim>\<open>delay=10\<close>, is not among the sources. The
  specification gives its contract: a configuration with \<^verbatim>\<open>max_iterations\<close> zero or a
  non-positive \<^verbatim>\<open>delay\<close> is rejected before the loop starts; each iteration issues the
  status query; a transport error is a failure at once; a code of the success set gives
  Success with the output location, a code of the failure set gives Failure with the
  message and the code as classification; any other code gives Timeout with the last
  status once the iteration count has reached \<^verbatim>\<open>max_iterations\<close>, and a wait of \<^verbatim>\<open>delay\<close>
  followed by the next iteration before that.
\<close>

record job_status =
  status_code :: string
  output_location :: "string option"
  message :: "string option"

datatype failure_class = RemoteFailure string | TransportFailure

datatype poll_result =
    Success "string option"
  | Failure failure_class "string option"
  | Timeout job_status

datatype poller_event = Query job_handle | Wait int

text \<open>
  Modelled from the spec: the poller's loop. \<open>query h n\<close> is the answer to the query
  number \<open>n\<close> (from 0) for the handle \<open>h\<close>: a transport error with its message, or a
  status. \<open>n\<close> counts the iterations already done.
\<close>

function poller_loop ::
  "(job_handle \<Rightarrow> nat \<Rightarrow> string + job_status) \<Rightarrow> job_handle \<Rightarrow> string set \<Rightarrow> string set
     \<Rightarrow> int \<Rightarrow> nat \<Rightarrow> nat \<Rightarrow> poller_event list \<Rightarrow> poll_result \<times> poller_event list" where
  "poller_loop query h success failure delay max_iterations n tr =
     (case query h n of
        Inl msg \<Rightarrow> (Failure TransportFailure (Some msg), tr @ [Query h])
      | Inr js \<Rightarrow>
          if status_code js \<in> success then (Success (output_location js), tr @ [Query h])
          else if status_code js \<in> failure
          then (Failure (RemoteFailure (status_code js)) (message js), tr @ [Query h])
          else if max_iterations \<le> Suc n then (Timeout js, tr @ [Query h])
          else poller_loop query h success failure delay max_iterations (Suc n)
                 (tr @ [Query h, Wait delay]))"
  by pat_completeness auto
termination
  by (relation "measure (\<lambda>(query, h, success, failure, delay, max_iterations, n, tr).
        max_iterations - n)") auto

declare poller_loop.simps [simp del]

text \<open>Modelled from the spec: the poller, with its configuration check before the loop.\<close>

definition wait_for_completion ::
  "(job_handle \<Rightarrow> nat \<Rightarrow> string + job_status) \<Rightarrow> job_handle \<Rightarrow> string set \<Rightarrow> string set
     \<Rightarrow> int \<Rightarrow> nat \<Rightarrow> (py_exception + poll_result) \<times> poller_event list" where
  "wait_for_completion query h success failure delay max_iterations =
     (if max_iterations = 0 \<or> delay \<le> 0 then (Inl ConfigurationError, [])
      else (case poller_loop query h success failure delay max_iterations 0 [] of
              (result, tr) \<Rightarrow> (Inr result, tr)))"

section \<open>Sample responses\<close>

text \<open>Responses of the shapes the service gives, for the concrete runs below.\<close>

definition in_progress :: response where
  "in_progress =
     \<lparr>status = Some ''InProgress'', outputConfiguration = None, error_message = None\<rparr>"

definition succeeded :: response where
  "succeeded =
     \<lparr>status = Some ''Success'',
      outputConfiguration = Some \<lparr>s3Uri = Some ''s3://bucket/output/job_metadata.json''\<rparr>,
      error_message = None\<rparr>"

definition service_error :: response where
  "service_error =
     \<lparr>status = Some ''ServiceError'', outputConfiguration = None,
      error_message = Some ''internal failure''\<rparr>"

definition queued :: response where
  "queued = \<lparr>status = Some ''Queued'', outputConfiguration = None, error_message = None\<rparr>"

definition client_error :: response where
  "client_error =
     \<lparr>status = Some ''ClientError'',
      outputConfiguration = Some \<lparr>s3Uri = Some ''s3://bucket/output/job_metadata.json''\<rparr>,
      error_message = Some ''access denied''\<rparr>"

section \<open>The loop, one case at a time\<close>

text \<open>
  \<open>status_loop\<close> has one recursive equation; it is taken out of the simplifier and read
  through these four cases: the condition is false, or it holds and the next query has no
  answer, raises, or returns.
\<close>

lemma status_loop_terminal:
  "st \<in> set terminal_statuses \<Longrightarrow>
     status_loop arn st sr tr answers = (Exited st sr, tr)"
  by (simp add: status_loop.simps)

lemma status_loop_no_answer:
  "st \<notin> set terminal_statuses \<Longrightarrow>
     status_loop arn st sr tr [] = (AwaitingAnswer, tr @ [GetStatus arn])"
  by (simp add: status_loop.simps)

lemma status_loop_raise:
  "st \<notin> set terminal_statuses \<Longrightarrow>
     status_loop arn st sr tr (Inl e # rest) = (Raised e, tr @ [GetStatus arn])"
  by (simp add: status_loop.simps)

lemma status_loop_answer:
  "st \<notin> set terminal_statuses \<Longrightarrow>
     status_loop arn st sr tr (Inr r # rest) =
       status_loop arn (status r) (Some r) (tr @ iteration arn r) rest"
  by (simp add: status_loop.simps [of arn st sr tr "Inr r # rest"] iteration_def)

lemma None_not_terminal: "None \<notin> set terminal_statuses"
  by (simp add: terminal_statuses_def)

lemma pending_then_terminal:
  "st \<notin> set terminal_statuses \<Longrightarrow> \<forall>p \<in> set pre. status p \<notin> set terminal_statuses \<Longrightarrow>
   status r \<in> set terminal_statuses \<Longrightarrow>
   status_loop arn st sr tr (map Inr pre @ Inr r # rest) =
     (Exited (status r) (Some r), tr @ concat (map (iteration arn) (pre @ [r])))"
proof (induction pre arbitrary: st sr tr)
  case Nil
  then show ?case by (simp add: status_loop_answer status_loop_terminal)
next
  case (Cons p pre)
  then show ?case by (simp add: status_loop_answer)
qed

lemma pending_then_raise:
  "st \<notin> set terminal_statuses \<Longrightarrow> \<forall>p \<in> set pre. status p \<notin> set terminal_statuses \<Longrightarrow>
   status_loop arn st sr tr (map Inr pre @ Inl e # rest) =
     (Raised e, tr @ concat (map (iteration arn) pre) @ [GetStatus arn])"
proof (induction pre arbitrary: st sr tr)
  case Nil
  then show ?case by (simp add: status_loop_raise)
next
  case (Cons p pre)
  then show ?case by (simp add: status_loop_answer)
qed

lemma pending_then_waiting:
  "st \<notin> set terminal_statuses \<Longrightarrow> \<forall>p \<in> set pre. status p \<notin> set terminal_statuses \<Longrightarrow>
   status_loop arn st sr tr (map Inr pre) =
     (AwaitingAnswer, tr @ concat (map (iteration arn) pre) @ [GetStatus arn])"
proof (induction pre arbitrary: st sr tr)
  case Nil
  then show ?case by (simp add: status_loop_no_answer)
next
  case (Cons p pre)
  then show ?case by (simp add: status_loop_answer)
qed

lemma status_loop_extends:
  "\<exists>more. snd (status_loop arn st sr tr answers) = tr @ more"
proof (induction answers arbitrary: st sr tr)
  case Nil
  show ?case by (cases "st \<in> set terminal_statuses")
      (simp_all add: status_loop_terminal status_loop_no_answer)
next
  case (Cons a answers)
  show ?case
  proof (cases "st \<in> set terminal_statuses")
    case True
    then show ?thesis by (simp add: status_loop_terminal)
  next
    case False
    show ?thesis
    proof (cases a)
      case (Inl e)
      with False show ?thesis by (simp add: status_loop_raise)
    next
      case (Inr r)
      from Cons.IH [of "status r" "Some r" "tr @ iteration arn r"]
      obtain more where "snd (status_loop arn (status r) (Some r) (tr @ iteration arn r) answers)
          = (tr @ iteration arn r) @ more" by blast
      with False Inr show ?thesis by (simp add: status_loop_answer)
    qed
  qed
qed

lemma status_loop_queries_first:
  assumes "st \<notin> set terminal_statuses"
  shows "\<exists>more. snd (status_loop arn st sr tr answers) = tr @ GetStatus arn # more"
proof (cases answers)
  case Nil
  with assms show ?thesis by (simp add: status_loop_no_answer)
next
  case (Cons a rest)
  show ?thesis
  proof (cases a)
    case (Inl e)
    with assms Cons show ?thesis by (simp add: status_loop_raise)
  next
    case (Inr r)
    from status_loop_extends [of arn "status r" "Some r" "tr @ iteration arn r" rest]
    obtain more where "snd (status_loop arn (status r) (Some r) (tr @ iteration arn r) rest)
          = (tr @ iteration arn r) @ more" by blast
    with assms Cons Inr show ?thesis by (simp add: status_loop_answer iteration_def)
  qed
qed

lemma queried_handles_append [simp]:
  "queried_handles (xs @ ys) = queried_handles xs @ queried_handles ys"
  by (induction xs rule: queried_handles.induct) simp_all

lemma sleeps_append [simp]: "sleeps (xs @ ys) = sleeps xs @ sleeps ys"
  by (induction xs rule: sleeps.induct) simp_all

lemma queried_handles_iteration [simp]: "queried_handles (iteration arn r) = [arn]"
  by (simp add: iteration_def)

lemma sleeps_iteration [simp]: "sleeps (iteration arn r) = [5]"
  by (simp add: iteration_def)

lemma queried_handles_iterations:
  "queried_handles (concat (map (iteration arn) rs)) = replicate (length rs) arn"
  by (induction rs) simp_all

lemma sleeps_iterations:
  "sleeps (concat (map (iteration arn) rs)) = replicate (length rs) 5"
  by (induction rs) simp_all

lemma status_loop_handles:
  "set (queried_handles (snd (status_loop arn st sr tr answers)))
     \<subseteq> set (queried_handles tr) \<union> {arn}"
proof (induction answers arbitrary: st sr tr)
  case Nil
  show ?case by (cases "st \<in> set terminal_statuses")
      (auto simp add: status_loop_terminal status_loop_no_answer)
next
  case (Cons a answers)
  show ?case
  proof (cases "st \<in> set terminal_statuses")
    case True
    then show ?thesis by (auto simp add: status_loop_terminal)
  next
    case False
    show ?thesis
    proof (cases a)
      case (Inl e)
      with False show ?thesis by (simp add: status_loop_raise)
    next
      case (Inr r)
      with False Cons.IH [of "status r" "Some r" "tr @ iteration arn r"]
      show ?thesis by (auto simp add: status_loop_answer)
    qed
  qed
qed

lemma status_loop_exit_terminal:
  "fst (status_loop arn st sr tr answers) = Exited st' sr' \<Longrightarrow> st' \<in> set terminal_statuses"
proof (induction answers arbitrary: st sr tr)
  case Nil
  then show ?case by (cases "st \<in> set terminal_statuses")
      (simp_all add: status_loop_terminal status_loop_no_answer)
next
  case (Cons a answers)
  show ?case
  proof (cases "st \<in> set terminal_statuses")
    case True
    with Cons.prems show ?thesis by (simp add: status_loop_terminal)
  next
    case False
    show ?thesis
    proof (cases a)
      case (Inl e)
      with False Cons.prems show ?thesis by (simp add: status_loop_raise)
    next
      case (Inr r)
      with False Cons.prems Cons.IH [of "status r" "Some r" "tr @ iteration arn r"]
      show ?thesis by (simp add: status_loop_answer)
    qed
  qed
qed

lemma pending_then_rest:
  "st \<notin> set terminal_statuses \<Longrightarrow> \<forall>p \<in> set pre. status p \<notin> set terminal_statuses \<Longrightarrow>
   \<exists>st' sr'. st' \<notin> set terminal_statuses \<and>
     status_loop arn st sr tr (map Inr pre @ rest) =
       status_loop arn st' sr' (tr @ concat (map (iteration arn) pre)) rest"
proof (induction pre arbitrary: st sr tr)
  case Nil
  then show ?case by auto
next
  case (Cons p pre)
  from Cons.prems have p: "status p \<notin> set terminal_statuses"
    and pre: "\<forall>q \<in> set pre. status q \<notin> set terminal_statuses" by simp_all
  from Cons.IH [OF p pre, of "Some p" "tr @ iteration arn p"] Cons.prems(1)
  show ?case by (simp add: status_loop_answer)
qed

lemma status_loop_outcome:
  "fst (status_loop arn st sr tr answers) = AwaitingAnswer \<or>
   (\<exists>e. Inl e \<in> set answers \<and> fst (status_loop arn st sr tr answers) = Raised e) \<or>
   (st \<in> set terminal_statuses \<and> fst (status_loop arn st sr tr answers) = Exited st sr) \<or>
   (\<exists>r. Inr r \<in> set answers \<and> status r \<in> set terminal_statuses \<and>
        fst (status_loop arn st sr tr answers) = Exited (status r) (Some r))"
proof (induction answers arbitrary: st sr tr)
  case Nil
  show ?case by (cases "st \<in> set terminal_statuses")
      (simp_all add: status_loop_terminal status_loop_no_answer)
next
  case (Cons a answers)
  show ?case
  proof (cases "st \<in> set terminal_statuses")
    case True
    then show ?thesis by (simp add: status_loop_terminal)
  next
    case False
    show ?thesis
    proof (cases a)
      case (Inl e)
      with False show ?thesis by (simp add: status_loop_raise)
    next
      case (Inr r)
      from Cons.IH [of "status r" "Some r" "tr @ iteration arn r"] False Inr
      show ?thesis by (auto simp add: status_loop_answer)
    qed
  qed
qed

section \<open>Lab 1: properties of the polling loop\<close>

text \<open>
  C1, as the claim states it, fails on lab 1's loop: the loop builds no result of its own.
  A run whose first terminal status is \<^verbatim>\<open>ServiceError\<close> leaves the loop in the same way as
  one that ends in \<^verbatim>\<open>Success\<close>, with no failure value that carries the error message, and
  the notebook goes on to read the result of the failed run.
\<close>

theorem failed_run_exits_like_success_counterexample:
  "fst (poll ''arn:job'' [Inr in_progress, Inr service_error])
     = Exited (Some ''ServiceError'') (Some service_error) \<and>
   fst (poll ''arn:job'' [Inr in_progress, Inr succeeded])
     = Exited (Some ''Success'') (Some succeeded) \<and>
   lab_01 ''arn:job'' [Inr in_progress, Inr service_error]
     = (Exited (Some ''ServiceError'') (Some service_error),
        [GetStatus ''arn:job'', ClearOutput, PrintStatus (Some ''InProgress''), Sleep 5,
         GetStatus ''arn:job'', ClearOutput, PrintStatus (Some ''ServiceError''), Sleep 5,
         PrintOutputConfig None, ReadJsonOnS3 None])"
  by (simp add: lab_01_def poll_def in_progress_def service_error_def succeeded_def
      terminal_statuses_def status_loop_answer status_loop_terminal iteration_def
      get_output_config_def)

text \<open>
  C1, amended. When the first terminal status (\<^verbatim>\<open>Success\<close>, \<^verbatim>\<open>ServiceError\<close> or
  \<^verbatim>\<open>ClientError\<close>) is the \<open>k\<close>-th answer, \<open>k = Suc (length pre)\<close>, lab 1's loop issues exactly
  \<open>k\<close> status queries, whatever the service would have answered afterwards (\<open>rest\<close>), and
  leaves the loop with \<^verbatim>\<open>status\<close> that terminal code and \<^verbatim>\<open>status_response\<close> the \<open>k\<close>-th
  response, for a success and for a failure alike. The loop has no iteration budget, so
  this holds for every \<open>k\<close>.
\<close>

theorem first_terminal_status_ends_poll:
  assumes "\<forall>p \<in> set pre. status p \<notin> set terminal_statuses"
    and "status r \<in> set terminal_statuses"
  shows "fst (poll arn (map Inr pre @ Inr r # rest)) = Exited (status r) (Some r) \<and>
         queried_handles (snd (poll arn (map Inr pre @ Inr r # rest)))
           = replicate (Suc (length pre)) arn"
  using assms
  by (simp add: poll_def pending_then_terminal None_not_terminal queried_handles_iterations
      replicate_append_same)

theorem first_terminal_status_ends_poll_witness:
  "fst (poll ''arn:job'' [Inr in_progress, Inr queued, Inr succeeded, Inr in_progress])
     = Exited (Some ''Success'') (Some succeeded) \<and>
   queried_handles (snd (poll ''arn:job'' [Inr in_progress, Inr queued, Inr succeeded, Inr in_progress]))
     = [''arn:job'', ''arn:job'', ''arn:job'']"
  using first_terminal_status_ends_poll
    [of "[in_progress, queued]" succeeded "''arn:job''" "[Inr in_progress]"]
  by (simp add: terminal_statuses_def in_progress_def queued_def succeeded_def)

text \<open>
  C2, as the claim states it, fails on lab 1's loop: after three answers \<^verbatim>\<open>InProgress\<close> the
  loop has slept three times and issued a fourth query; it has not returned, and no
  number of pending answers makes it return.
\<close>

theorem poll_has_no_timeout_counterexample:
  "fst (poll ''arn:job'' [Inr in_progress, Inr in_progress, Inr in_progress]) = AwaitingAnswer \<and>
   queried_handles (snd (poll ''arn:job'' [Inr in_progress, Inr in_progress, Inr in_progress]))
     = [''arn:job'', ''arn:job'', ''arn:job'', ''arn:job''] \<and>
   sleeps (snd (poll ''arn:job'' [Inr in_progress, Inr in_progress, Inr in_progress])) = [5, 5, 5]"
  by (simp add: poll_def in_progress_def terminal_statuses_def status_loop_answer
      status_loop_no_answer iteration_def)

text \<open>
  C2, amended. Lab 1's loop has no iteration budget and no timeout outcome: against any
  \<open>n\<close> answers none of which is terminal it performs \<open>n\<close> full iterations (a query, the
  output, a sleep of 5 each) and then issues query \<open>n + 1\<close>; it is still polling. After any
  answers at all, the loop is still polling, or was left by the exception of one of the
  queries, or was left with \<^verbatim>\<open>status_response\<close> one of the answers and \<^verbatim>\<open>status\<close> its terminal
  code: nothing else ends it.
\<close>

theorem pending_answers_never_end_poll:
  assumes "\<forall>p \<in> set pre. status p \<notin> set terminal_statuses"
  shows "poll arn (map Inr pre)
           = (AwaitingAnswer, concat (map (iteration arn) pre) @ [GetStatus arn]) \<and>
         (fst (poll arn answers) = AwaitingAnswer \<or>
          (\<exists>e. Inl e \<in> set answers \<and> fst (poll arn answers) = Raised e) \<or>
          (\<exists>r. Inr r \<in> set answers \<and> status r \<in> set terminal_statuses \<and>
               fst (poll arn answers) = Exited (status r) (Some r)))"
proof
  from assms show "poll arn (map Inr pre)
      = (AwaitingAnswer, concat (map (iteration arn) pre) @ [GetStatus arn])"
    by (simp add: poll_def pending_then_waiting None_not_terminal)
next
  from status_loop_outcome [of arn None None "[]" answers] None_not_terminal
  show "fst (poll arn answers) = AwaitingAnswer \<or>
          (\<exists>e. Inl e \<in> set answers \<and> fst (poll arn answers) = Raised e) \<or>
          (\<exists>r. Inr r \<in> set answers \<and> status r \<in> set terminal_statuses \<and>
               fst (poll arn answers) = Exited (status r) (Some r))"
    by (simp add: poll_def)
qed

theorem pending_answers_never_end_poll_witness:
  "poll ''arn:job'' [Inr queued, Inr in_progress]
     = (AwaitingAnswer,
        [GetStatus ''arn:job'', ClearOutput, PrintStatus (Some ''Queued''), Sleep 5,
         GetStatus ''arn:job'', ClearOutput, PrintStatus (Some ''InProgress''), Sleep 5,
         GetStatus ''arn:job'']) \<and>
   fst (poll ''arn:job'' [Inr queued, Inr in_progress]) = AwaitingAnswer"
  using pending_answers_never_end_poll [of "[queued, in_progress]" "''arn:job''"
      "[Inr queued, Inr in_progress]"]
  by (simp add: terminal_statuses_def in_progress_def queued_def iteration_def)

text \<open>
  C3, as the claim states it, fails on lab 1's loop: \<^verbatim>\<open>time.sleep(5)\<close> is the last statement
  of the loop body and runs before the condition is tested again, so the query that
  observes \<^verbatim>\<open>Success\<close> is followed by a sleep too. For the answers \<^verbatim>\<open>InProgress\<close>,
  \<^verbatim>\<open>InProgress\<close>, \<^verbatim>\<open>Success\<close> the loop makes three queries and three sleeps of 5, not two.
\<close>

theorem sleep_follows_terminal_query_counterexample:
  "poll ''arn:job'' [Inr in_progress, Inr in_progress, Inr succeeded]
     = (Exited (Some ''Success'') (Some succeeded),
        [GetStatus ''arn:job'', ClearOutput, PrintStatus (Some ''InProgress''), Sleep 5,
         GetStatus ''arn:job'', ClearOutput, PrintStatus (Some ''InProgress''), Sleep 5,
         GetStatus ''arn:job'', ClearOutput, PrintStatus (Some ''Success''), Sleep 5]) \<and>
   sleeps (snd (poll ''arn:job'' [Inr in_progress, Inr in_progress, Inr succeeded])) \<noteq> [5, 5]"
  by (simp add: poll_def in_progress_def succeeded_def terminal_statuses_def
      status_loop_answer status_loop_terminal iteration_def)

text \<open>
  C3, amended. In every run of lab 1's loop that ends at a terminal status, each status
  query, the terminal one included, is followed by the clearing of the output, the
  status line and exactly one sleep of 5 seconds; the run does nothing else. With the
  terminal status as answer \<open>k\<close> there are \<open>k\<close> sleeps.
\<close>

theorem every_answered_query_is_followed_by_sleep:
  assumes "\<forall>p \<in> set pre. status p \<notin> set terminal_statuses"
    and "status r \<in> set terminal_statuses"
  shows "snd (poll arn (map Inr pre @ Inr r # rest)) = concat (map (iteration arn) (pre @ [r])) \<and>
         sleeps (snd (poll arn (map Inr pre @ Inr r # rest))) = replicate (Suc (length pre)) 5"
  using assms
  by (simp add: poll_def pending_then_terminal None_not_terminal sleeps_iterations
      replicate_append_same)

theorem every_answered_query_is_followed_by_sleep_witness:
  "snd (poll ''arn:job'' [Inr in_progress, Inr service_error])
     = [GetStatus ''arn:job'', ClearOutput, PrintStatus (Some ''InProgress''), Sleep 5,
        GetStatus ''arn:job'', ClearOutput, PrintStatus (Some ''ServiceError''), Sleep 5] \<and>
   sleeps (snd (poll ''arn:job'' [Inr in_progress, Inr service_error])) = [5, 5]"
  using every_answered_query_is_followed_by_sleep
    [of "[in_progress]" service_error "''arn:job''" "[]"]
  by (simp add: terminal_statuses_def in_progress_def service_error_def iteration_def)

text \<open>
  C4, as the claim states it, fails on lab 1's loop: the call of
  \<^verbatim>\<open>get_data_automation_status\<close> stands in no \<^verbatim>\<open>try\<close>, so its exception leaves the loop as an
  exception; the loop returns no failure value.
\<close>

theorem transport_error_is_raised_counterexample:
  "poll ''arn:job'' [Inr in_progress, Inl (TransportError ''connection reset'')]
     = (Raised (TransportError ''connection reset''),
        [GetStatus ''arn:job'', ClearOutput, PrintStatus (Some ''InProgress''), Sleep 5,
         GetStatus ''arn:job''])"
  by (simp add: poll_def in_progress_def terminal_statuses_def status_loop_answer
      status_loop_raise iteration_def)

text \<open>
  C4, amended. If the \<open>i\<close>-th status query raises (\<open>i = Suc (length pre)\<close>, the answers
  before it pending), the exception leaves lab 1's loop at once: exactly \<open>i\<close> queries have
  been issued, the last one followed by no sleep, and nothing the service would answer
  later (\<open>rest\<close>) is asked for. The error is raised, not returned as an outcome.
\<close>

theorem query_exception_leaves_loop:
  assumes "\<forall>p \<in> set pre. status p \<notin> set terminal_statuses"
  shows "poll arn (map Inr pre @ Inl e # rest)
           = (Raised e, concat (map (iteration arn) pre) @ [GetStatus arn])"
  using assms by (simp add: poll_def pending_then_raise None_not_terminal)

theorem query_exception_leaves_loop_witness:
  "poll ''arn:job'' [Inr queued, Inl (TransportError ''timed out''), Inr succeeded]
     = (Raised (TransportError ''timed out''),
        [GetStatus ''arn:job'', ClearOutput, PrintStatus (Some ''Queued''), Sleep 5,
         GetStatus ''arn:job''])"
  using query_exception_leaves_loop
    [of "[queued]" "''arn:job''" "TransportError ''timed out''" "[Inr succeeded]"]
  by (simp add: terminal_statuses_def queued_def iteration_def)

section \<open>Lab 2: the configuration check of the bounded poller\<close>

text \<open>
  C5. With \<^verbatim>\<open>max_iterations\<close> zero or \<^verbatim>\<open>delay\<close> not positive the poller ends in
  \<open>ConfigurationError\<close> with an empty trace: no status query and no wait has happened,
  whatever the status-query operation, the handle and the two sets of codes are.
\<close>

theorem invalid_configuration_is_rejected:
  assumes "max_iterations = 0 \<or> delay \<le> 0"
  shows "wait_for_completion query h success failure delay max_iterations
           = (Inl ConfigurationError, [])"
  using assms by (simp add: wait_for_completion_def)

theorem invalid_configuration_is_rejected_witness:
  "wait_for_completion (\<lambda>h n. Inr \<lparr>status_code = ''Success'', output_location = None, message = None\<rparr>)
      ''arn:job'' {''Success''} {''ClientError'', ''ServiceError''} 10 0
     = (Inl ConfigurationError, []) \<and>
   wait_for_completion (\<lambda>h n. Inr \<lparr>status_code = ''Success'', output_location = None, message = None\<rparr>)
      ''arn:job'' {''Success''} {''ClientError'', ''ServiceError''} (- 1) 40
     = (Inl ConfigurationError, [])"
  using invalid_configuration_is_rejected
    [of 0 10 "\<lambda>h n. Inr \<lparr>status_code = ''Success'', output_location = None, message = None\<rparr>"
      "''arn:job''" "{''Success''}" "{''ClientError'', ''ServiceError''}"]
    invalid_configuration_is_rejected
    [of 40 "- 1" "\<lambda>h n. Inr \<lparr>status_code = ''Success'', output_location = None, message = None\<rparr>"
      "''arn:job''" "{''Success''}" "{''ClientError'', ''ServiceError''}"]
  by simp

section \<open>Lab 1: pending statuses, the handle, and what follows the loop\<close>

text \<open>
  C6. A response whose status is none of the three terminal codes, a code never seen
  before and an absent \<^verbatim>\<open>status\<close> key included, is pending for lab 1's loop: the loop does
  not raise and does not exit on it; it sleeps 5 and queries again, whatever comes next.
  The loop has no iteration budget that could run out.
\<close>

theorem unrecognised_status_keeps_polling:
  assumes "\<forall>p \<in> set pre. status p \<notin> set terminal_statuses"
    and "status r \<notin> set terminal_statuses"
  shows "fst (poll arn (map Inr pre @ [Inr r])) = AwaitingAnswer \<and>
         (\<exists>more. snd (poll arn (map Inr pre @ Inr r # rest))
            = concat (map (iteration arn) pre) @ iteration arn r @ GetStatus arn # more)"
proof
  from assms have "\<forall>p \<in> set (pre @ [r]). status p \<notin> set terminal_statuses" by simp
  from pending_then_waiting [OF None_not_terminal this, of arn None "[]"]
  show "fst (poll arn (map Inr pre @ [Inr r])) = AwaitingAnswer"
    by (simp add: poll_def)
next
  from pending_then_rest [OF None_not_terminal assms(1), of arn None "[]" "Inr r # rest"]
  obtain st' sr' where st': "st' \<notin> set terminal_statuses"
    and run: "poll arn (map Inr pre @ Inr r # rest)
      = status_loop arn st' sr' (concat (map (iteration arn) pre)) (Inr r # rest)"
    by (auto simp add: poll_def)
  from status_loop_queries_first [OF assms(2), of arn "Some r"
      "concat (map (iteration arn) pre) @ iteration arn r" rest]
  obtain more where "snd (status_loop arn (status r) (Some r)
      (concat (map (iteration arn) pre) @ iteration arn r) rest)
      = (concat (map (iteration arn) pre) @ iteration arn r) @ GetStatus arn # more"
    by blast
  with run st' show "\<exists>more. snd (poll arn (map Inr pre @ Inr r # rest))
      = concat (map (iteration arn) pre) @ iteration arn r @ GetStatus arn # more"
    by (simp add: status_loop_answer)
qed

theorem unrecognised_status_keeps_polling_witness:
  "fst (poll ''arn:job''
     [Inr in_progress, Inr \<lparr>status = None, outputConfiguration = None, error_message = None\<rparr>])
     = AwaitingAnswer \<and>
   (\<exists>more. snd (poll ''arn:job'' [Inr in_progress,
        Inr \<lparr>status = None, outputConfiguration = None, error_message = None\<rparr>, Inr succeeded])
      = [GetStatus ''arn:job'', ClearOutput, PrintStatus (Some ''InProgress''), Sleep 5,
         GetStatus ''arn:job'', ClearOutput, PrintStatus None, Sleep 5,
         GetStatus ''arn:job''] @ more)"
  using unrecognised_status_keeps_polling [of "[in_progress]"
      "\<lparr>status = None, outputConfiguration = None, error_message = None\<rparr>" "''arn:job''"
      "[Inr succeeded]"]
  by (simp add: terminal_statuses_def in_progress_def iteration_def)

text \<open>
  C7. Every status query of a run of lab 1's loop names the handle the run was given, and
  every run names it at least once: the set of handles queried is that one handle. The
  handle is a parameter of the loop, which has no assignment to it; the loop's variables
  are \<^verbatim>\<open>status\<close> and \<^verbatim>\<open>status_response\<close>, the last status seen.
\<close>

theorem poll_queries_one_handle:
  "set (queried_handles (snd (poll arn answers))) = {arn}"
proof
  from status_loop_handles [of arn None None "[]" answers]
  show "set (queried_handles (snd (poll arn answers))) \<subseteq> {arn}"
    by (simp add: poll_def)
next
  from status_loop_queries_first [OF None_not_terminal, of arn None "[]" answers]
  obtain more where "snd (poll arn answers) = GetStatus arn # more"
    by (auto simp add: poll_def)
  then show "{arn} \<subseteq> set (queried_handles (snd (poll arn answers)))" by simp
qed

theorem poll_queries_one_handle_witness:
  "set (queried_handles (snd (poll ''arn:job'' [Inr in_progress, Inr queued, Inr succeeded])))
     = {''arn:job''}"
  using poll_queries_one_handle [of "''arn:job''" "[Inr in_progress, Inr queued, Inr succeeded]"]
  by simp

text \<open>
  C8. Lab 1's loop starts with \<^verbatim>\<open>status\<close> \<open>None\<close>, which is none of the terminal codes, so
  the first thing every run does is a status query; and when the loop is left normally,
  \<^verbatim>\<open>status\<close> is \<^verbatim>\<open>Success\<close>, \<^verbatim>\<open>ServiceError\<close> or \<^verbatim>\<open>ClientError\<close>.
\<close>

theorem poll_queries_first_and_exits_terminal:
  "(\<exists>more. snd (poll arn answers) = GetStatus arn # more) \<and>
   (\<forall>st sr. fst (poll arn answers) = Exited st sr \<longrightarrow>
      st \<in> {Some ''Success'', Some ''ServiceError'', Some ''ClientError''})"
proof
  from status_loop_queries_first [OF None_not_terminal, of arn None "[]" answers]
  show "\<exists>more. snd (poll arn answers) = GetStatus arn # more"
    by (simp add: poll_def)
next
  show "\<forall>st sr. fst (poll arn answers) = Exited st sr \<longrightarrow>
      st \<in> {Some ''Success'', Some ''ServiceError'', Some ''ClientError''}"
    using status_loop_exit_terminal [of arn None None "[]" answers]
    by (auto simp add: poll_def terminal_statuses_def)
qed

theorem poll_queries_first_and_exits_terminal_witness:
  "(\<exists>more. snd (poll ''arn:job'' [Inr in_progress, Inr service_error])
      = GetStatus ''arn:job'' # more) \<and>
   fst (poll ''arn:job'' [Inr in_progress, Inr service_error])
      = Exited (Some ''ServiceError'') (Some service_error) \<and>
   Some ''ServiceError'' \<in> {Some ''Success'', Some ''ServiceError'', Some ''ClientError''}"
  using poll_queries_first_and_exits_terminal [of "''arn:job''" "[Inr in_progress, Inr service_error]"]
  by (simp add: poll_def in_progress_def service_error_def terminal_statuses_def
      status_loop_answer status_loop_terminal)

text \<open>
  C9, as the claim states it, fails: a run that ended in \<^verbatim>\<open>ClientError\<close> does not yield
  \<open>None\<close> when its response carries an output configuration with an \<^verbatim>\<open>s3Uri\<close>; the
  notebook reads that URI and passes it on.
\<close>

theorem failed_run_reads_its_uri_counterexample:
  "lab_01 ''arn:job'' [Inr in_progress, Inr client_error]
     = (Exited (Some ''ClientError'') (Some client_error),
        [GetStatus ''arn:job'', ClearOutput, PrintStatus (Some ''InProgress''), Sleep 5,
         GetStatus ''arn:job'', ClearOutput, PrintStatus (Some ''ClientError''), Sleep 5,
         PrintOutputConfig (Some ''s3://bucket/output/job_metadata.json''),
         ReadJsonOnS3 (Some ''s3://bucket/output/job_metadata.json'')]) \<and>
   get_output_config client_error \<noteq> None"
  by (simp add: lab_01_def poll_def in_progress_def client_error_def
      terminal_statuses_def status_loop_answer status_loop_terminal iteration_def
      get_output_config_def)

text \<open>
  C9, amended. After lab 1's loop the notebook reads \<^verbatim>\<open>outputConfiguration.s3Uri\<close> of the
  last response, prints it and hands it to \<^verbatim>\<open>utils.read_json_on_s3\<close>, in the same way for each
  of the three terminal statuses: a run that ended in \<^verbatim>\<open>ServiceError\<close> or \<^verbatim>\<open>ClientError\<close> has
  no outcome of its own. The value read is the \<^verbatim>\<open>s3Uri\<close> of the response's output
  configuration, and \<open>None\<close> when the response has no output configuration or that has no
  \<^verbatim>\<open>s3Uri\<close>.
\<close>

theorem terminal_run_reads_result_whatever_the_status:
  assumes "\<forall>p \<in> set pre. status p \<notin> set terminal_statuses"
    and "status r \<in> set terminal_statuses"
  shows "lab_01 arn (map Inr pre @ Inr r # rest)
           = (Exited (status r) (Some r),
              concat (map (iteration arn) (pre @ [r])) @
                [PrintOutputConfig
                   (case outputConfiguration r of None \<Rightarrow> None | Some oc \<Rightarrow> s3Uri oc),
                 ReadJsonOnS3
                   (case outputConfiguration r of None \<Rightarrow> None | Some oc \<Rightarrow> s3Uri oc)])"
  using assms
  by (simp add: lab_01_def poll_def pending_then_terminal None_not_terminal
      get_output_config_def)

theorem terminal_run_reads_result_whatever_the_status_witness:
  "lab_01 ''arn:job'' [Inr queued, Inr service_error]
     = (Exited (Some ''ServiceError'') (Some service_error),
        [GetStatus ''arn:job'', ClearOutput, PrintStatus (Some ''Queued''), Sleep 5,
         GetStatus ''arn:job'', ClearOutput, PrintStatus (Some ''ServiceError''), Sleep 5,
         PrintOutputConfig None, ReadJsonOnS3 None]) \<and>
   lab_01 ''arn:job'' [Inr client_error, Inr succeeded]
     = (Exited (Some ''ClientError'') (Some client_error),
        [GetStatus ''arn:job'', ClearOutput, PrintStatus (Some ''ClientError''), Sleep 5,
         PrintOutputConfig (Some ''s3://bucket/output/job_metadata.json''),
         ReadJsonOnS3 (Some ''s3://bucket/output/job_metadata.json'')]) \<and>
   lab_01 ''arn:job'' [Inr succeeded]
     = (Exited (Some ''Success'') (Some succeeded),
        [GetStatus ''arn:job'', ClearOutput, PrintStatus (Some ''Success''), Sleep 5,
         PrintOutputConfig (Some ''s3://bucket/output/job_metadata.json''),
         ReadJsonOnS3 (Some ''s3://bucket/output/job_metadata.json'')])"
  using terminal_run_reads_result_whatever_the_status
      [of "[queued]" service_error "''arn:job''" "[]"]
    terminal_run_reads_result_whatever_the_status
      [of "[]" client_error "''arn:job''" "[Inr succeeded]"]
    terminal_run_reads_result_whatever_the_status
      [of "[]" succeeded "''arn:job''" "[]"]
  by (simp add: terminal_statuses_def queued_def service_error_def client_error_def
      succeeded_def iteration_def)

section \<open>Lab 2: result retrieval\<close>

text \<open>
  C10. In lab 2 \<^verbatim>\<open>output_config_uri\<close> is assigned exactly when the status of the response
  is \<^verbatim>\<open>Success\<close>. For any other status the cell prints the failure and leaves the
  variable unassigned, and the next cell, which passes it to \<^verbatim>\<open>read_json_from_s3\<close>, stops
  with \<open>NameError\<close>; on \<^verbatim>\<open>Success\<close> the read is called with the URI of the response.
\<close>

theorem result_retrieval_needs_success:
  assumes "status sr = Some s"
  shows "((\<exists>uri tr. check_status sr = Inr (Assigned uri, tr)) \<longleftrightarrow> s = ''Success'') \<and>
         (s \<noteq> ''Success'' \<longrightarrow>
            lab_02 sr = (Some NameError,
              PrintFailed s #
                (case error_message sr of None \<Rightarrow> [] | Some m \<Rightarrow> [PrintErrorMessage m]))) \<and>
         (s = ''Success'' \<longrightarrow>
            lab_02 sr = (None,
              [PrintCompleted, PrintOutputConfiguration (get_output_config sr),
               ReadJsonFromS3 (get_output_config sr)]))"
  using assms by (auto simp add: lab_02_def check_status_def retrieve_results_def)

theorem result_retrieval_needs_success_witness:
  "lab_02 service_error
     = (Some NameError, [PrintFailed ''ServiceError'', PrintErrorMessage ''internal failure'']) \<and>
   lab_02 in_progress = (Some NameError, [PrintFailed ''InProgress'']) \<and>
   lab_02 succeeded
     = (None, [PrintCompleted,
               PrintOutputConfiguration (Some ''s3://bucket/output/job_metadata.json''),
               ReadJsonFromS3 (Some ''s3://bucket/output/job_metadata.json'')])"
  using result_retrieval_needs_success [of service_error "''ServiceError''"]
    result_retrieval_needs_success [of in_progress "''InProgress''"]
    result_retrieval_needs_success [of succeeded "''Success''"]
  by (simp add: service_error_def in_progress_def succeeded_def get_output_config_def)

end
